theory Spec2Isabelle
  imports Complex_Main "HOL-Library.Sublist"
begin

section \<open>Values of the host language\<close>

text \<open>
  The worker is TypeScript. Three of its idioms decide most of the claims below and are
  written out once:
  \<^item> \<open>!v\<close> on an optional string is true for \<open>undefined\<close>/\<open>null\<close> and for the empty string;
  \<^item> \<open>v || d\<close> yields \<open>d\<close> exactly when \<open>v\<close> is falsy (a string: absent or empty; a
    number: absent or zero);
  \<^item> a property read \<open>obj[key]\<close> on a plain object yields the value stored under the key
    or, when the object has no such key of its own, the member of that name the object
    inherits (\<open>toString\<close>, \<open>constructor\<close>, ...), or \<open>undefined\<close>.
  Numbers of a JSON body are finite, so they are modelled as \<open>real\<close>; the handlers never
  compute with them, they only test them for zero and copy them.
\<close>

fun falsy :: "string option \<Rightarrow> bool" where
  "falsy None = True"
| "falsy (Some s) = (s = [])"

fun or_str :: "string option \<Rightarrow> string \<Rightarrow> string" where
  "or_str None d = d"
| "or_str (Some s) d = (if s = [] then d else s)"


text \<open>
  The members every plain object inherits. None is a string, all are truthy; where the
  code turns one into text (the return value of a replacer), the text is the one the
  worker's engine gives: the source text of a native function, or \<open>[object Object]\<close>.
  In a place that must hold a string such a member is a type error.
\<close>

definition inherited_member :: "string \<Rightarrow> string option" where
  "inherited_member key =
     (if key = ''__proto__'' then Some ''[object Object]''
      else if key = ''constructor'' then Some ''function Object() { [native code] }''
      else if key \<in> set [''toString'', ''toLocaleString'', ''valueOf'', ''hasOwnProperty'',
                          ''isPrototypeOf'', ''propertyIsEnumerable'', ''__defineGetter__'',
                          ''__defineSetter__'', ''__lookupGetter__'', ''__lookupSetter__'']
      then Some (''function '' @ key @ ''() { [native code] }'')
      else None)"

definition read_property :: "(string \<rightharpoonup> string) \<Rightarrow> string \<Rightarrow> string option" where
  "read_property obj key =
     (case obj key of Some v \<Rightarrow> Some v | None \<Rightarrow> inherited_member key)"

fun truthy_bool :: "bool option \<Rightarrow> bool" where
  "truthy_bool None = False"
| "truthy_bool (Some b) = b"

text \<open>\<open>s.split(',')\<close>: always at least one piece; the empty string gives one empty piece.\<close>

fun split_comma :: "string \<Rightarrow> string list" where
  "split_comma [] = [[]]"
| "split_comma (c # cs) =
     (if c = CHR '','' then [] # split_comma cs
      else (case split_comma cs of
              [] \<Rightarrow> [[c]]
            | p # ps \<Rightarrow> (c # p) # ps))"




section \<open>Records of a room\<close>

type_synonym storage = "string \<rightharpoonup> string"

text \<open>The props of a \<open>miyagi-widget\<close> shape, as \<open>miyagiWidgetShapeSchema\<close> declares them.\<close>

record widget_props =
  prop_w :: real
  prop_h :: real
  widgetId :: string
  templateId :: string
  htmlContent :: string
  color :: string
  miyagiStorage :: "storage option"

record shape =
  shape_id :: string
  shape_type :: string
  parentId :: string
  shape_index :: string
  shape_x :: real
  shape_y :: real
  rotation :: real
  isLocked :: bool
  opacity :: real
  meta :: "(string \<times> string) list"
  props :: widget_props

record page =
  page_id :: string
  page_name :: "string option"
  page_index :: string

text \<open>
  \<open>TLRecord\<close> is a union tagged by \<open>typeName\<close>. The handlers read the props of a shape
  only after they have tested its \<open>type\<close> for \<open>miyagi-widget\<close>, so the props of other
  shapes are never looked at. A binding carries its id and its type.
\<close>

datatype tl_record = Page page | Shape shape | Binding string string

fun typeName :: "tl_record \<Rightarrow> string" where
  "typeName (Page p) = ''page''"
| "typeName (Shape s) = ''shape''"
| "typeName (Binding i t) = ''binding''"

fun rec_id :: "tl_record \<Rightarrow> string" where
  "rec_id (Page p) = page_id p"
| "rec_id (Shape s) = shape_id s"
| "rec_id (Binding i t) = i"

fun rec_type :: "tl_record \<Rightarrow> string option" where
  "rec_type (Page p) = None"
| "rec_type (Shape s) = Some (shape_type s)"
| "rec_type (Binding i t) = Some t"

fun rec_parentId :: "tl_record \<Rightarrow> string option" where
  "rec_parentId (Shape s) = Some (parentId s)"
| "rec_parentId r = None"



fun as_shape :: "tl_record \<Rightarrow> shape option" where
  "as_shape (Shape s) = Some s"
| "as_shape r = None"

record room =
  documents :: "tl_record list"

definition getCurrentSnapshot :: "room \<Rightarrow> tl_record list" where
  "getCurrentSnapshot r = documents r"

text \<open>
  Modelled from the spec: \<open>TLSocketRoom.updateStore\<close> and \<open>store.put\<close> belong to the
  library \<open>@tldraw/sync-core\<close>, which is not under src/. The spec's Record Store is a
  mapping from record identifier to record that keeps its iteration order: a put under a
  known identifier replaces the record where it stands, a put under a new identifier adds
  the record at the end. The record validation schema may reject a write; the rejection
  is an exception whose message the schema gives.
\<close>

definition store_put :: "tl_record \<Rightarrow> tl_record list \<Rightarrow> tl_record list" where
  "store_put r docs =
     (if rec_id r \<in> rec_id ` set docs
      then map (\<lambda>d. if rec_id d = rec_id r then r else d) docs
      else docs @ [r])"

type_synonym schema = "tl_record \<Rightarrow> string option"

definition updateStore_put :: "schema \<Rightarrow> tl_record \<Rightarrow> room \<Rightarrow> string + room" where
  "updateStore_put sch r rm =
     (case sch r of
        Some msg \<Rightarrow> Inl msg
      | None \<Rightarrow> Inr (rm\<lparr>documents := store_put r (documents rm)\<rparr>))"

definition accept_all :: schema where
  "accept_all r = None"

text \<open>
  What \<open>await this.getRoom()\<close> hands to a handler: the room, or the message of the error
  the accessor raised. A handler answers with a payload or with a status and an error
  message (\<open>{success: false, error}\<close>).
\<close>

type_synonym room_access = "string + room"

datatype 'a response = Success 'a | Failure nat string

section \<open>Template substitution\<close>

text \<open>
  \<open>htmlContent.replace(/\{\{miyagi-storage:([^}]+)\}\}/g, (_, key) => storage[key] || '')\<close>.
  A match at a position is the opener, then the longest run of characters other than
  \<open>}\<close> (the run must not be empty), then \<open>}}\<close>. A shorter run cannot match, because the
  character after it is not \<open>}\<close>. The global replace scans from the left and resumes
  after each match.
\<close>

definition opener :: string where
  "opener = ''{{miyagi-storage:''"

fun strip_prefix :: "string \<Rightarrow> string \<Rightarrow> string option" where
  "strip_prefix [] s = Some s"
| "strip_prefix (p # ps) [] = None"
| "strip_prefix (p # ps) (c # cs) = (if p = c then strip_prefix ps cs else None)"

definition match_at :: "string \<Rightarrow> (string \<times> string) option" where
  "match_at s =
     (case strip_prefix opener s of
        None \<Rightarrow> None
      | Some t \<Rightarrow>
          (let key = takeWhile (\<lambda>c. c \<noteq> CHR ''}'') t;
               r = dropWhile (\<lambda>c. c \<noteq> CHR ''}'') t
           in if key \<noteq> [] \<and> take 2 r = ''}}'' then Some (key, drop 2 r) else None))"

lemma strip_prefix_length: "strip_prefix p s = Some t \<Longrightarrow> length s = length p + length t"
  by (induction p s rule: strip_prefix.induct) (auto split: if_splits)

lemma match_at_shorter: "match_at s = Some (key, rest) \<Longrightarrow> length rest < length s"
proof -
  assume m: "match_at s = Some (key, rest)"
  then obtain t where t: "strip_prefix opener s = Some t"
    by (auto simp: match_at_def split: option.splits)
  from m t have "rest = drop 2 (dropWhile (\<lambda>c. c \<noteq> CHR ''}'') t)"
    by (auto simp: match_at_def Let_def split: if_splits)
  then have "length rest \<le> length t"
    by (simp add: le_trans [OF diff_le_self length_dropWhile_le])
  moreover from strip_prefix_length [OF t] have "length t < length s"
    by (simp add: opener_def)
  ultimately show ?thesis by simp
qed

function replace_all :: "(string \<Rightarrow> string) \<Rightarrow> string \<Rightarrow> string" where
  "replace_all f [] = []"
| "replace_all f (c # cs) =
     (case match_at (c # cs) of
        Some (key, rest) \<Rightarrow> f key @ replace_all f rest
      | None \<Rightarrow> c # replace_all f cs)"
  by pat_completeness auto
termination
  by (relation "measure (\<lambda>(f, s). length s)") (auto dest: match_at_shorter)

record template_context =
  ctx_widgetId :: string
  ctx_miyagiStorage :: storage

definition processTemplate :: "string \<Rightarrow> template_context \<Rightarrow> string" where
  "processTemplate html ctx =
     replace_all (\<lambda>key. or_str (read_property (ctx_miyagiStorage ctx) key) []) html"

section \<open>Query handlers\<close>




text \<open>
  \<open>handleGetWidgets\<close>: the query parameters are the decoded values of \<open>pageId\<close>, \<open>ids\<close>
  and \<open>fields\<close>, each absent or a string; \<open>ids\<close> and \<open>fields\<close> are split at commas.
\<close>

record position =
  pos_x :: real
  pos_y :: real

record extent =
  ext_w :: real
  ext_h :: real

record widgets_query =
  q_pageId :: "string option"
  q_ids :: "string option"
  q_fields :: "string option"

record widget_view =
  wv_id :: string
  wv_widgetId :: string
  wv_templateId :: string
  wv_htmlContent :: "string option"
  wv_miyagiStorage :: "storage option"
  wv_position :: "position option"
  wv_size :: "extent option"
  wv_properties :: "widget_props option"

record widgets_result =
  widgets :: "widget_view list"
  result_pageId :: string

definition wants :: "string list option \<Rightarrow> string \<Rightarrow> bool" where
  "wants flds name = (case flds of None \<Rightarrow> True | Some l \<Rightarrow> name \<in> set l)"

definition storage_or_empty :: "storage option \<Rightarrow> storage" where
  "storage_or_empty st = (case st of None \<Rightarrow> Map.empty | Some m \<Rightarrow> m)"

definition widget_view_of :: "string list option \<Rightarrow> shape \<Rightarrow> widget_view" where
  "widget_view_of flds s =
     \<lparr>wv_id = shape_id s,
      wv_widgetId = widgetId (props s),
      wv_templateId = templateId (props s),
      wv_htmlContent =
        (if wants flds ''htmlContent'' then Some (htmlContent (props s)) else None),
      wv_miyagiStorage =
        (if wants flds ''miyagiStorage''
         then Some (storage_or_empty (miyagiStorage (props s))) else None),
      wv_position =
        (if wants flds ''position''
         then Some \<lparr>pos_x = shape_x s, pos_y = shape_y s\<rparr> else None),
      wv_size =
        (if wants flds ''size''
         then Some \<lparr>ext_w = prop_w (props s), ext_h = prop_h (props s)\<rparr> else None),
      wv_properties = (if wants flds ''properties'' then Some (props s) else None)\<rparr>"

definition is_widget :: "tl_record \<Rightarrow> bool" where
  "is_widget r = (typeName r = ''shape'' \<and> rec_type r = Some ''miyagi-widget'')"

definition select_widgets :: "string option \<Rightarrow> string list option \<Rightarrow> tl_record list \<Rightarrow> tl_record list" where
  "select_widgets pageId ids allRecords =
     (let widgetShapes =
            filter (\<lambda>r. is_widget r \<and> (falsy pageId \<or> rec_parentId r = pageId)) allRecords
      in case ids of
           None \<Rightarrow> widgetShapes
         | Some l \<Rightarrow>
             if length l > 0 then filter (\<lambda>sh. rec_id sh \<in> set l) widgetShapes
             else widgetShapes)"

definition handleGetWidgets :: "widgets_query \<Rightarrow> room_access \<Rightarrow> widgets_result response" where
  "handleGetWidgets q acc =
     (let pageId = q_pageId q;
          ids = map_option split_comma (q_ids q);
          flds = map_option split_comma (q_fields q)
      in case acc of
           Inl msg \<Rightarrow> Failure 500 msg
         | Inr rm \<Rightarrow>
             (let widgetShapes = select_widgets pageId ids (getCurrentSnapshot rm)
              in Success
                   \<lparr>widgets = List.map_filter
                                (\<lambda>r. map_option (widget_view_of flds) (as_shape r))
                                widgetShapes,
                    result_pageId = or_str pageId ''page:page''\<rparr>))"

section \<open>Template content and generated content\<close>










section \<open>Mutation handlers\<close>






record edit_widget_body =
  edit_htmlContent :: "string option"
  edit_preserveStorage :: "bool option"

definition find_widget :: "string \<Rightarrow> tl_record list \<Rightarrow> tl_record option" where
  "find_widget shapeId allRecords =
     find (\<lambda>r. rec_id r = shapeId \<and> typeName r = ''shape''
                \<and> rec_type r = Some ''miyagi-widget'') allRecords"

definition edited_shape :: "shape \<Rightarrow> string \<Rightarrow> bool option \<Rightarrow> shape" where
  "edited_shape sh processedHtml preserveStorage =
     sh\<lparr>props := (props sh)
           \<lparr>htmlContent := processedHtml,
            miyagiStorage :=
              (if truthy_bool preserveStorage then miyagiStorage (props sh)
               else Some Map.empty)\<rparr>\<rparr>"

definition handleEditWidgetHtml ::
  "schema \<Rightarrow> string \<Rightarrow> edit_widget_body \<Rightarrow> room_access
     \<Rightarrow> string response \<times> room_access" where
  "handleEditWidgetHtml sch shapeId body acc =
     (case edit_htmlContent body of
        None \<Rightarrow> (Failure 400 ''Missing htmlContent'', acc)
      | Some html \<Rightarrow>
          if html = [] then (Failure 400 ''Missing htmlContent'', acc)
          else
            (case acc of
               Inl msg \<Rightarrow> (Failure 500 msg, acc)
             | Inr rm \<Rightarrow>
                 (case find_widget shapeId (getCurrentSnapshot rm) of
                    Some (Shape sh) \<Rightarrow>
                      if shape_type sh \<noteq> ''miyagi-widget''
                      then (Failure 404 (''Widget shape not found: '' @ shapeId), acc)
                      else
                        (let processedHtml =
                               processTemplate html
                                 \<lparr>ctx_widgetId = widgetId (props sh),
                                  ctx_miyagiStorage = storage_or_empty (miyagiStorage (props sh))\<rparr>;
                             updatedShape = edited_shape sh processedHtml (edit_preserveStorage body)
                         in case updateStore_put sch (Shape updatedShape) rm of
                              Inl msg \<Rightarrow> (Failure 500 msg, acc)
                            | Inr rm' \<Rightarrow> (Success processedHtml, Inr rm'))
                  | other \<Rightarrow> (Failure 404 (''Widget shape not found: '' @ shapeId), acc))))"





text \<open>The record stored under an identifier, as a later snapshot shows it.\<close>

definition lookup_record :: "string \<Rightarrow> room_access \<Rightarrow> tl_record option" where
  "lookup_record i acc =
     (case acc of
        Inl msg \<Rightarrow> None
      | Inr rm \<Rightarrow> find (\<lambda>r. rec_id r = i) (getCurrentSnapshot rm))"

text \<open>
  Modelled from the spec: the router of the durable object sends the update-storage
  route to \<open>handleUpdateWidgetStorage\<close>, and the handler class under src/ does not define
  that method. The spec: the operation fails with \<open>WidgetNotFound\<close> if no widget shape
  with the identifier exists; when \<open>merge\<close> is true it performs a key-wise union of
  \<open>storageData\<close> into the existing storage (new keys override colliding existing keys,
  non-colliding existing keys are retained); when false it replaces the storage
  wholesale; it returns the set of keys that were written; it is one mutation.
\<close>

definition update_widget_storage ::
  "schema \<Rightarrow> string \<Rightarrow> storage \<Rightarrow> bool \<Rightarrow> room_access
     \<Rightarrow> string set response \<times> room_access" where
  "update_widget_storage sch shapeId storageData merge acc =
     (case acc of
        Inl msg \<Rightarrow> (Failure 500 msg, acc)
      | Inr rm \<Rightarrow>
          (case find_widget shapeId (getCurrentSnapshot rm) of
             Some (Shape sh) \<Rightarrow>
               (let old = storage_or_empty (miyagiStorage (props sh));
                    new = (if merge then old ++ storageData else storageData);
                    updatedShape = sh\<lparr>props := (props sh)\<lparr>miyagiStorage := Some new\<rparr>\<rparr>
                in case updateStore_put sch (Shape updatedShape) rm of
                     Inl msg \<Rightarrow> (Failure 500 msg, acc)
                   | Inr rm' \<Rightarrow> (Success (dom storageData), Inr rm'))
           | other \<Rightarrow> (Failure 404 (''Widget shape not found: '' @ shapeId), acc)))"

text \<open>The storage of the widget stored under an identifier; a widget without one has none.\<close>

definition storage_of :: "string \<Rightarrow> room_access \<Rightarrow> storage option" where
  "storage_of i acc =
     (case lookup_record i acc of
        Some (Shape sh) \<Rightarrow> Some (storage_or_empty (miyagiStorage (props sh)))
      | other \<Rightarrow> None)"

section \<open>The durable object and its room\<close>

text \<open>
  \<open>TldrawDurableObject\<close> keeps \<open>roomId\<close> and \<open>roomPromise\<close>. Objects have an identity the
  claims speak about, so the promises \<open>getRoom\<close> creates and the rooms the construction
  creates live in two lists, and a handle is a position in its list. \<open>bucket_reads\<close>
  records every \<open>r2.get\<close> the construction has started.

  \<open>getRoom\<close> itself is synchronous: it raises, or it returns the stored promise, or it
  stores a new promise whose body has run up to its first \<open>await\<close> (the bucket read).
  The rest of the body runs when the bucket answers: a failed read rejects the promise;
  otherwise the room is constructed from the snapshot, if there is one, and the promise
  is fulfilled with it.
\<close>

datatype promise_state = Pending | Fulfilled nat | Rejected string

record durable_object =
  roomId :: "string option"
  roomPromise :: "nat option"
  promises :: "promise_state list"
  rooms :: "room list"
  bucket_reads :: "string list"


definition getRoom :: "durable_object \<Rightarrow> (string + nat) \<times> durable_object" where
  "getRoom this =
     (case roomId this of
        None \<Rightarrow> (Inl ''Missing roomId'', this)
      | Some rid \<Rightarrow>
          if rid = [] then (Inl ''Missing roomId'', this)
          else
            (case roomPromise this of
               Some p \<Rightarrow> (Inr p, this)
             | None \<Rightarrow>
                 (let p = length (promises this)
                  in (Inr p,
                      this\<lparr>roomPromise := Some p,
                           promises := promises this @ [Pending],
                           bucket_reads := bucket_reads this @ [''rooms/'' @ rid]\<rparr>))))"

text \<open>
  Modelled from the spec: \<open>new TLSocketRoom\<close> belongs to \<open>@tldraw/sync-core\<close>. The room
  starts from the prior snapshot if one is present, else empty.
\<close>

definition new_TLSocketRoom :: "tl_record list option \<Rightarrow> room" where
  "new_TLSocketRoom initialSnapshot =
     \<lparr>documents = (case initialSnapshot of None \<Rightarrow> [] | Some docs \<Rightarrow> docs)\<rparr>"

definition bucket_answers ::
  "nat \<Rightarrow> string + tl_record list option \<Rightarrow> durable_object \<Rightarrow> durable_object" where
  "bucket_answers p outcome this =
     (if p < length (promises this) \<and> promises this ! p = Pending then
        (case outcome of
           Inl err \<Rightarrow> this\<lparr>promises := (promises this)[p := Rejected err]\<rparr>
         | Inr initialSnapshot \<Rightarrow>
             this\<lparr>rooms := rooms this @ [new_TLSocketRoom initialSnapshot],
                  promises := (promises this)[p := Fulfilled (length (rooms this))]\<rparr>)
      else this)"

text \<open>
  What can happen to the object, in any order: a connection request (the route stashes
  the room id if none is bound, \<open>handleConnect\<close> returns early without a \<open>userId\<close> and
  calls \<open>getRoom\<close> otherwise), a canvas tool request (the handler calls \<open>getRoom\<close>; these
  routes do not bind the room id), and the bucket's answer to a read.
\<close>

datatype event =
    Connect string "string option"
  | ToolCall
  | BucketAnswers nat "string + tl_record list option"

fun step :: "event \<Rightarrow> durable_object \<Rightarrow> (string + nat) option \<times> durable_object" where
  "step (Connect rid userId) this =
     (let this1 = (if falsy (roomId this) then this\<lparr>roomId := Some rid\<rparr> else this)
      in if falsy userId then (None, this1)
         else (Some (fst (getRoom this1)), snd (getRoom this1)))"
| "step ToolCall this = (Some (fst (getRoom this)), snd (getRoom this))"
| "step (BucketAnswers p outcome) this = (None, bucket_answers p outcome this)"


text \<open>A run of events: what the calls of \<open>getRoom\<close> returned, in order, and the final object.\<close>

fun run :: "event list \<Rightarrow> durable_object \<Rightarrow> (string + nat) list \<times> durable_object" where
  "run [] this = ([], this)"
| "run (e # es) this =
     (let (out, this1) = step e this;
          (outs, this2) = run es this1
      in ((case out of None \<Rightarrow> [] | Some r \<Rightarrow> [r]) @ outs, this2))"

section \<open>Templates as literal text and placeholders\<close>








section \<open>What the claims compare the handlers with\<close>




text \<open>A room into which page \<open>p1\<close> and then page \<open>p2\<close> were put.\<close>

definition page1 :: page where
  "page1 = \<lparr>page_id = ''p1'', page_name = None, page_index = ''a1''\<rparr>"



text \<open>
  The widget shapes of a snapshot in iteration order, the ones a query lists (a supplied
  page id that is not empty must equal the parent, a supplied \<open>ids\<close> must name the
  shape), and the names of the optional projections.
\<close>

definition widget_shapes :: "tl_record list \<Rightarrow> shape list" where
  "widget_shapes docs =
     List.map_filter
       (\<lambda>r. case r of
               Shape s \<Rightarrow> if shape_type s = ''miyagi-widget'' then Some s else None
             | other \<Rightarrow> None) docs"

definition listed_shapes :: "widgets_query \<Rightarrow> room \<Rightarrow> shape list" where
  "listed_shapes q rm =
     filter (\<lambda>s. (falsy (q_pageId q) \<or> q_pageId q = Some (parentId s))
                \<and> (case q_ids q of
                      None \<Rightarrow> True
                    | Some i \<Rightarrow> shape_id s \<in> set (split_comma i)))
       (widget_shapes (documents rm))"

definition known_fields :: "string list" where
  "known_fields = [''htmlContent'', ''miyagiStorage'', ''position'', ''size'', ''properties'']"

text \<open>
  A room with a page, two widgets on different pages, a shape of another type and a
  binding.
\<close>

definition widget1 :: shape where
  "widget1 =
     \<lparr>shape_id = ''shape:w1'', shape_type = ''miyagi-widget'', parentId = ''page:p1'',
      shape_index = ''a1'', shape_x = 10, shape_y = 20, rotation = 0, isLocked = False,
      opacity = 1, meta = [],
      props = \<lparr>prop_w = 320, prop_h = 240, widgetId = ''notepad_1'', templateId = ''notepad'',
               htmlContent = ''<p>old</p>'', color = ''black'',
               miyagiStorage = Some [''name'' \<mapsto> ''Ann'']\<rparr>\<rparr>"

definition widget2 :: shape where
  "widget2 =
     \<lparr>shape_id = ''shape:w2'', shape_type = ''miyagi-widget'', parentId = ''page:p2'',
      shape_index = ''a2'', shape_x = 30, shape_y = 40, rotation = 0, isLocked = True,
      opacity = 1, meta = [],
      props = \<lparr>prop_w = 300, prop_h = 200, widgetId = ''timer_2'', templateId = ''timer'',
               htmlContent = ''<p>timer</p>'', color = ''black'', miyagiStorage = None\<rparr>\<rparr>"

definition geo1 :: shape where
  "geo1 = widget2\<lparr>shape_id := ''shape:g1'', shape_type := ''geo''\<rparr>"

definition sample_room :: room where
  "sample_room =
     \<lparr>documents = [Page page1, Shape widget1, Shape geo1, Shape widget2,
                   Binding ''binding:b1'' ''arrow'']\<rparr>"







text \<open>
  The substitution an edit runs: over the supplied text, with the \<open>widgetId\<close> and the
  storage the widget has at that moment.
\<close>

definition substituted :: "string \<Rightarrow> shape \<Rightarrow> string" where
  "substituted html sh =
     processTemplate html
       \<lparr>ctx_widgetId = widgetId (props sh),
        ctx_miyagiStorage = storage_or_empty (miyagiStorage (props sh))\<rparr>"

text \<open>
  Two edits of the first widget of the sample room, one that clears its storage and one
  that keeps it, and the room after such an edit.
\<close>

definition greeting_body :: edit_widget_body where
  "greeting_body =
     \<lparr>edit_htmlContent = Some ''Hi {{miyagi-storage:name}}!'', edit_preserveStorage = None\<rparr>"

definition keeping_body :: edit_widget_body where
  "keeping_body =
     \<lparr>edit_htmlContent = Some ''Hi {{miyagi-storage:name}}!'',
      edit_preserveStorage = Some True\<rparr>"

definition greeted_room :: "bool option \<Rightarrow> room" where
  "greeted_room preserveStorage =
     \<lparr>documents = [Page page1, Shape (edited_shape widget1 ''Hi Ann!'' preserveStorage),
                   Shape geo1, Shape widget2, Binding ''binding:b1'' ''arrow'']\<rparr>"

text \<open>
  A widget with its storage replaced, and the sample room with the second widget's
  storage set.
\<close>

definition with_storage :: "shape \<Rightarrow> storage \<Rightarrow> shape" where
  "with_storage sh st = sh\<lparr>props := (props sh)\<lparr>miyagiStorage := Some st\<rparr>\<rparr>"

definition stored_room :: "storage option \<Rightarrow> room" where
  "stored_room st =
     \<lparr>documents = [Page page1, Shape widget1, Shape geo1,
                   Shape (widget2\<lparr>props := (props widget2)\<lparr>miyagiStorage := st\<rparr>\<rparr>),
                   Binding ''binding:b1'' ''arrow'']\<rparr>"

section \<open>Template substitution: what is replaced and what is kept\<close>













section \<open>The room is constructed once\<close>















section \<open>Listing pages\<close>






section \<open>Listing widgets\<close>

lemma split_comma_not_Nil: "split_comma s \<noteq> []"
  by (induction s) (auto split: list.splits)

lemma split_comma_first:
  "CHR '','' \<notin> set name \<Longrightarrow> split_comma (name @ CHR '','' # rest) = name # split_comma rest"
  by (induction name) (auto split: list.splits)

lemma selected_views:
  "List.map_filter (\<lambda>r. map_option f (as_shape r))
     (filter P (filter (\<lambda>r. is_widget r \<and> Q r) docs))
   = map f (filter (\<lambda>s. Q (Shape s) \<and> P (Shape s)) (widget_shapes docs))"
proof (induction docs)
  case Nil
  then show ?case by (simp add: widget_shapes_def List.map_filter_simps)
next
  case (Cons r docs)
  then show ?case
    by (cases r) (simp_all add: widget_shapes_def List.map_filter_simps is_widget_def)
qed

lemma select_widgets_views:
  "List.map_filter (\<lambda>r. map_option f (as_shape r))
     (select_widgets (q_pageId q) (map_option split_comma (q_ids q)) (documents rm))
   = map f (listed_shapes q rm)"
proof (cases "q_ids q")
  case None
  then show ?thesis
    using selected_views [of f "\<lambda>r. True" "\<lambda>r. falsy (q_pageId q) \<or> rec_parentId r = q_pageId q"
        "documents rm"]
    by (auto simp: select_widgets_def listed_shapes_def Let_def intro!: arg_cong [where f = "map f"] filter_cong)
next
  case (Some i)
  then show ?thesis
    using selected_views [of f "\<lambda>r. rec_id r \<in> set (split_comma i)"
        "\<lambda>r. falsy (q_pageId q) \<or> rec_parentId r = q_pageId q" "documents rm"]
    by (auto simp: select_widgets_def listed_shapes_def Let_def split_comma_not_Nil
          intro!: arg_cong [where f = "map f"] filter_cong)
qed

lemma unknown_field_ignored:
  "name \<notin> set known_fields \<Longrightarrow>
     widget_view_of (Some (name # l)) s = widget_view_of (Some l) s"
  by (auto simp: widget_view_of_def wants_def known_fields_def)

text \<open>
  C8 (amended). \<open>list_widgets\<close> answers with a failure when the room accessor fails. On
  an acquired room the result holds, in iteration order, exactly the shape records of
  widget type, restricted by exact \<open>parentId\<close> match when a page id that is not empty is
  supplied (an empty page id restricts nothing) and by membership in \<open>ids\<close> when \<open>ids\<close>
  is supplied. Each returned widget has \<open>id\<close>, \<open>widgetId\<close> and \<open>templateId\<close>, and has an
  optional projection exactly when \<open>fields\<close> is absent or names it. A name in \<open>fields\<close>
  that is none of the five changes nothing.
\<close>

theorem handleGetWidgets_lists_widgets:
  "handleGetWidgets q (Inl msg) = Failure 500 msg
   \<and> handleGetWidgets q (Inr rm)
       = Success \<lparr>widgets = map (widget_view_of (map_option split_comma (q_fields q)))
                              (listed_shapes q rm),
                  result_pageId = or_str (q_pageId q) ''page:page''\<rparr>
   \<and> wv_id (widget_view_of fl s) = shape_id s
   \<and> wv_widgetId (widget_view_of fl s) = widgetId (props s)
   \<and> wv_templateId (widget_view_of fl s) = templateId (props s)
   \<and> (wv_htmlContent (widget_view_of fl s) \<noteq> None
        \<longleftrightarrow> fl = None \<or> ''htmlContent'' \<in> set (the fl))
   \<and> (wv_miyagiStorage (widget_view_of fl s) \<noteq> None
        \<longleftrightarrow> fl = None \<or> ''miyagiStorage'' \<in> set (the fl))
   \<and> (wv_position (widget_view_of fl s) \<noteq> None
        \<longleftrightarrow> fl = None \<or> ''position'' \<in> set (the fl))
   \<and> (wv_size (widget_view_of fl s) \<noteq> None
        \<longleftrightarrow> fl = None \<or> ''size'' \<in> set (the fl))
   \<and> (wv_properties (widget_view_of fl s) \<noteq> None
        \<longleftrightarrow> fl = None \<or> ''properties'' \<in> set (the fl))
   \<and> (name \<notin> set known_fields \<and> CHR '','' \<notin> set name
        \<longrightarrow> handleGetWidgets (q\<lparr>q_fields := Some (name @ CHR '','' # rest)\<rparr>) acc
              = handleGetWidgets (q\<lparr>q_fields := Some rest\<rparr>) acc)"
proof -
  have a: "handleGetWidgets q (Inl msg) = Failure 500 msg"
    by (simp add: handleGetWidgets_def)
  have b: "handleGetWidgets q (Inr rm)
       = Success \<lparr>widgets = map (widget_view_of (map_option split_comma (q_fields q)))
                              (listed_shapes q rm),
                  result_pageId = or_str (q_pageId q) ''page:page''\<rparr>"
    by (simp add: handleGetWidgets_def Let_def getCurrentSnapshot_def select_widgets_views)
  have c: "wv_id (widget_view_of fl s) = shape_id s
      \<and> wv_widgetId (widget_view_of fl s) = widgetId (props s)
      \<and> wv_templateId (widget_view_of fl s) = templateId (props s)"
    by (simp add: widget_view_of_def)
  have d: "(wv_htmlContent (widget_view_of fl s) \<noteq> None
        \<longleftrightarrow> fl = None \<or> ''htmlContent'' \<in> set (the fl))
   \<and> (wv_miyagiStorage (widget_view_of fl s) \<noteq> None
        \<longleftrightarrow> fl = None \<or> ''miyagiStorage'' \<in> set (the fl))
   \<and> (wv_position (widget_view_of fl s) \<noteq> None
        \<longleftrightarrow> fl = None \<or> ''position'' \<in> set (the fl))
   \<and> (wv_size (widget_view_of fl s) \<noteq> None
        \<longleftrightarrow> fl = None \<or> ''size'' \<in> set (the fl))
   \<and> (wv_properties (widget_view_of fl s) \<noteq> None
        \<longleftrightarrow> fl = None \<or> ''properties'' \<in> set (the fl))"
    by (cases fl) (simp_all add: widget_view_of_def wants_def)
  have e: "handleGetWidgets (q\<lparr>q_fields := Some (name @ CHR '','' # rest)\<rparr>) acc
              = handleGetWidgets (q\<lparr>q_fields := Some rest\<rparr>) acc"
    if "name \<notin> set known_fields" "CHR '','' \<notin> set name"
  proof -
    have "widget_view_of (Some (split_comma (name @ CHR '','' # rest)))
        = widget_view_of (Some (split_comma rest))"
      using that by (auto simp: split_comma_first unknown_field_ignored)
    then show ?thesis by (simp add: handleGetWidgets_def Let_def split: sum.splits)
  qed
  from a b c d e show ?thesis by blast
qed


lemma widget_shapes_sample: "widget_shapes (documents sample_room) = [widget1, widget2]"
  by (simp add: sample_room_def widget_shapes_def List.map_filter_simps widget1_def
        widget2_def geo1_def)

theorem handleGetWidgets_lists_widgets_witness:
  "handleGetWidgets \<lparr>q_pageId = Some ''page:p1'', q_ids = Some ''shape:w2,shape:w1'',
                      q_fields = Some ''bogus,position''\<rparr> (Inr sample_room)
     = Success \<lparr>widgets = [\<lparr>wv_id = ''shape:w1'', wv_widgetId = ''notepad_1'',
                             wv_templateId = ''notepad'', wv_htmlContent = None,
                             wv_miyagiStorage = None,
                             wv_position = Some \<lparr>pos_x = 10, pos_y = 20\<rparr>,
                             wv_size = None, wv_properties = None\<rparr>],
                result_pageId = ''page:p1''\<rparr>
   \<and> ''bogus'' \<notin> set known_fields \<and> CHR '','' \<notin> set ''bogus''
   \<and> handleGetWidgets \<lparr>q_pageId = Some ''page:p1'', q_ids = Some ''shape:w2,shape:w1'',
                        q_fields = Some ''bogus,position''\<rparr> (Inr sample_room)
     = handleGetWidgets \<lparr>q_pageId = Some ''page:p1'', q_ids = Some ''shape:w2,shape:w1'',
                          q_fields = Some ''position''\<rparr> (Inr sample_room)"
proof -
  let ?q = "\<lparr>q_pageId = Some ''page:p1'', q_ids = Some ''shape:w2,shape:w1'',
             q_fields = Some ''bogus,position''\<rparr>"
  have u: "''bogus'' \<notin> set known_fields \<and> CHR '','' \<notin> set ''bogus''"
    by (simp add: known_fields_def)
  have l: "listed_shapes ?q sample_room = [widget1]"
    by (simp add: listed_shapes_def widget_shapes_sample) (simp add: widget1_def widget2_def)
  have v: "widget_view_of (Some [''bogus'', ''position'']) widget1
      = \<lparr>wv_id = ''shape:w1'', wv_widgetId = ''notepad_1'',
                             wv_templateId = ''notepad'', wv_htmlContent = None,
                             wv_miyagiStorage = None,
                             wv_position = Some \<lparr>pos_x = 10, pos_y = 20\<rparr>,
                             wv_size = None, wv_properties = None\<rparr>"
    by (simp add: widget_view_of_def wants_def widget1_def)
  note t = handleGetWidgets_lists_widgets
         [of ?q "''x''" sample_room "None" widget1 "''bogus''" "''position''" "Inr sample_room"]
  from t have "handleGetWidgets ?q (Inr sample_room)
       = Success \<lparr>widgets = map (widget_view_of (map_option split_comma (q_fields ?q)))
                              (listed_shapes ?q sample_room),
                  result_pageId = or_str (q_pageId ?q) ''page:page''\<rparr>"
    by blast
  then have a: "handleGetWidgets ?q (Inr sample_room)
     = Success \<lparr>widgets = [\<lparr>wv_id = ''shape:w1'', wv_widgetId = ''notepad_1'',
                             wv_templateId = ''notepad'', wv_htmlContent = None,
                             wv_miyagiStorage = None,
                             wv_position = Some \<lparr>pos_x = 10, pos_y = 20\<rparr>,
                             wv_size = None, wv_properties = None\<rparr>],
                result_pageId = ''page:p1''\<rparr>"
    by (simp add: l v)
  from t u have b: "handleGetWidgets (?q\<lparr>q_fields := Some (''bogus'' @ CHR '','' # ''position'')\<rparr>)
        (Inr sample_room)
      = handleGetWidgets (?q\<lparr>q_fields := Some ''position''\<rparr>) (Inr sample_room)"
    by blast
  from a b u show ?thesis by simp
qed

text \<open>
  C8 as stated fails: with \<open>pageId\<close> supplied as the empty string no parent matches it,
  yet every widget of the room is listed.
\<close>

theorem handleGetWidgets_empty_pageId_counterexample:
  "handleGetWidgets \<lparr>q_pageId = Some [], q_ids = None, q_fields = Some []\<rparr> (Inr sample_room)
     = Success \<lparr>widgets = [\<lparr>wv_id = ''shape:w1'', wv_widgetId = ''notepad_1'',
                             wv_templateId = ''notepad'', wv_htmlContent = None,
                             wv_miyagiStorage = None, wv_position = None,
                             wv_size = None, wv_properties = None\<rparr>,
                           \<lparr>wv_id = ''shape:w2'', wv_widgetId = ''timer_2'',
                             wv_templateId = ''timer'', wv_htmlContent = None,
                             wv_miyagiStorage = None, wv_position = None,
                             wv_size = None, wv_properties = None\<rparr>],
                result_pageId = ''page:page''\<rparr>
   \<and> parentId widget1 \<noteq> [] \<and> parentId widget2 \<noteq> []"
  by (simp add: handleGetWidgets_def select_widgets_def getCurrentSnapshot_def
        sample_room_def is_widget_def List.map_filter_simps widget_view_of_def wants_def
        widget1_def widget2_def geo1_def page1_def)

section \<open>Creating widgets\<close>

lemma find_replaced:
  "rec_id r \<in> rec_id ` set docs \<Longrightarrow>
     find (\<lambda>d. rec_id d = rec_id r) (map (\<lambda>d. if rec_id d = rec_id r then r else d) docs)
       = Some r"
  by (induction docs) auto

lemma find_appended:
  "rec_id r \<notin> rec_id ` set docs \<Longrightarrow> find (\<lambda>d. rec_id d = rec_id r) (docs @ [r]) = Some r"
  by (induction docs) auto

lemma find_store_put: "find (\<lambda>d. rec_id d = rec_id r) (store_put r docs) = Some r"
  by (simp add: store_put_def find_replaced find_appended)

lemma lookup_after_put:
  "updateStore_put sch r rm = Inr rm' \<Longrightarrow> lookup_record (rec_id r) (Inr rm') = Some r"
  by (auto simp: updateStore_put_def lookup_record_def getCurrentSnapshot_def find_store_put
        split: option.splits)

















section \<open>Editing a widget\<close>

lemma find_widget_Some:
  assumes "find_widget sid docs = Some r"
  shows "r \<in> set docs" "rec_id r = sid" "\<exists>sh. r = Shape sh \<and> shape_type sh = ''miyagi-widget''"
proof -
  from assms obtain i where i: "i < length docs" "docs ! i = r"
    and p: "rec_id r = sid \<and> typeName r = ''shape'' \<and> rec_type r = Some ''miyagi-widget''"
    unfolding find_widget_def find_Some_iff by blast
  from i show "r \<in> set docs" by auto
  from p show "rec_id r = sid" by simp
  from p show "\<exists>sh. r = Shape sh \<and> shape_type sh = ''miyagi-widget''"
    by (cases r) simp_all
qed

lemma find_widget_None:
  "find_widget sid docs = None
     \<longleftrightarrow> \<not> (\<exists>sh. Shape sh \<in> set docs \<and> shape_id sh = sid \<and> shape_type sh = ''miyagi-widget'')"
proof -
  have e: "(\<exists>r \<in> set docs. rec_id r = sid \<and> typeName r = ''shape''
            \<and> rec_type r = Some ''miyagi-widget'')
      \<longleftrightarrow> (\<exists>sh. Shape sh \<in> set docs \<and> shape_id sh = sid \<and> shape_type sh = ''miyagi-widget'')"
  proof
    assume "\<exists>r \<in> set docs. rec_id r = sid \<and> typeName r = ''shape''
            \<and> rec_type r = Some ''miyagi-widget''"
    then obtain r where r: "r \<in> set docs" "rec_id r = sid" "typeName r = ''shape''"
      "rec_type r = Some ''miyagi-widget''" by blast
    show "\<exists>sh. Shape sh \<in> set docs \<and> shape_id sh = sid \<and> shape_type sh = ''miyagi-widget''"
    proof (cases r)
      case (Shape x)
      with r have "Shape x \<in> set docs \<and> shape_id x = sid \<and> shape_type x = ''miyagi-widget''"
        by simp
      then show ?thesis by blast
    next
      case (Page x)
      with r(3) show ?thesis by simp
    next
      case (Binding x y)
      with r(3) show ?thesis by simp
    qed
  next
    assume "\<exists>sh. Shape sh \<in> set docs \<and> shape_id sh = sid \<and> shape_type sh = ''miyagi-widget''"
    then obtain sh where "Shape sh \<in> set docs" "shape_id sh = sid"
      "shape_type sh = ''miyagi-widget''" by blast
    then have "rec_id (Shape sh) = sid \<and> typeName (Shape sh) = ''shape''
            \<and> rec_type (Shape sh) = Some ''miyagi-widget''" by simp
    with \<open>Shape sh \<in> set docs\<close> show "\<exists>r \<in> set docs. rec_id r = sid \<and> typeName r = ''shape''
            \<and> rec_type r = Some ''miyagi-widget''" by blast
  qed
  have "find_widget sid docs = None
      \<longleftrightarrow> \<not> (\<exists>r \<in> set docs. rec_id r = sid \<and> typeName r = ''shape''
            \<and> rec_type r = Some ''miyagi-widget'')"
    by (auto simp: find_widget_def find_None_iff)
  with e show ?thesis by blast
qed

lemma handleEditWidgetHtml_missing:
  "falsy (edit_htmlContent body) \<Longrightarrow>
     handleEditWidgetHtml sch sid body acc = (Failure 400 ''Missing htmlContent'', acc)"
  by (cases "edit_htmlContent body") (simp_all add: handleEditWidgetHtml_def)

lemma handleEditWidgetHtml_no_room:
  "edit_htmlContent body = Some html \<Longrightarrow> html \<noteq> [] \<Longrightarrow>
     handleEditWidgetHtml sch sid body (Inl msg) = (Failure 500 msg, Inl msg)"
  by (simp add: handleEditWidgetHtml_def)

lemma handleEditWidgetHtml_not_found:
  assumes "edit_htmlContent body = Some html" "html \<noteq> []"
    and "find_widget sid (documents rm) = None"
  shows "handleEditWidgetHtml sch sid body (Inr rm)
           = (Failure 404 (''Widget shape not found: '' @ sid), Inr rm)"
  using assms by (simp add: handleEditWidgetHtml_def getCurrentSnapshot_def)

lemma handleEditWidgetHtml_found:
  assumes "edit_htmlContent body = Some html" "html \<noteq> []"
    and "find_widget sid (documents rm) = Some (Shape sh)"
  shows "handleEditWidgetHtml sch sid body (Inr rm)
           = (case updateStore_put sch
                     (Shape (edited_shape sh (substituted html sh) (edit_preserveStorage body))) rm of
                Inl msg \<Rightarrow> (Failure 500 msg, Inr rm)
              | Inr rm' \<Rightarrow> (Success (substituted html sh), Inr rm'))"
proof -
  from find_widget_Some(3) [OF assms(3)] have "shape_type sh = ''miyagi-widget''" by simp
  with assms show ?thesis
    unfolding substituted_def
    by (simp add: handleEditWidgetHtml_def getCurrentSnapshot_def Let_def)
qed


lemma handleEditWidgetHtml_success:
  assumes "handleEditWidgetHtml sch sid body (Inr rm) = (Success out, acc')"
  shows "\<exists>html sh rm'.
           edit_htmlContent body = Some html \<and> html \<noteq> []
           \<and> find_widget sid (documents rm) = Some (Shape sh)
           \<and> updateStore_put sch
                (Shape (edited_shape sh (substituted html sh) (edit_preserveStorage body))) rm
               = Inr rm'
           \<and> out = substituted html sh \<and> acc' = Inr rm'"
proof (cases "edit_htmlContent body")
  case None
  with assms handleEditWidgetHtml_missing [of body sch sid "Inr rm"] show ?thesis by simp
next
  case (Some html)
  show ?thesis
  proof (cases "html = []")
    case True
    with assms Some handleEditWidgetHtml_missing [of body sch sid "Inr rm"] show ?thesis by simp
  next
    case False
    show ?thesis
    proof (cases "find_widget sid (documents rm)")
      case None
      from assms handleEditWidgetHtml_not_found [OF Some False None, of sch]
      show ?thesis by simp
    next
      case found: (Some r)
      from find_widget_Some(3) [OF found] obtain sh where r: "r = Shape sh" by blast
      note f = handleEditWidgetHtml_found [OF Some False found [unfolded r], of sch]
      show ?thesis
      proof (cases "updateStore_put sch
                (Shape (edited_shape sh (substituted html sh) (edit_preserveStorage body))) rm")
        case (Inl msg)
        with assms f show ?thesis by simp
      next
        case (Inr rm')
        with assms f have "out = substituted html sh" "acc' = Inr rm'" by simp_all
        with Some False found r Inr show ?thesis by blast
      qed
    qed
  qed
qed

lemma map_replace_distinct:
  assumes "distinct (map f xs)" "i < length xs" "f (xs ! i) = k"
  shows "map (\<lambda>d. if f d = k then n else d) xs = xs[i := n]"
proof (rule nth_equalityI)
  show "length (map (\<lambda>d. if f d = k then n else d) xs) = length (xs[i := n])" by simp
next
  fix j assume "j < length (map (\<lambda>d. if f d = k then n else d) xs)"
  then have j: "j < length xs" by simp
  show "map (\<lambda>d. if f d = k then n else d) xs ! j = xs[i := n] ! j"
  proof (cases "j = i")
    case True
    with assms j show ?thesis by simp
  next
    case False
    have "(map f xs ! j = map f xs ! i) = (j = i)"
      using assms(1,2) j by (simp add: nth_eq_iff_index_eq del: nth_map)
    with False j assms(2,3) have "f (xs ! j) \<noteq> k" by simp
    with False j show ?thesis by simp
  qed
qed

lemma store_put_replaces:
  assumes "distinct (map rec_id docs)" "i < length docs" "rec_id (docs ! i) = rec_id r"
  shows "store_put r docs = docs[i := r]"
proof -
  from assms(2,3) have "rec_id r \<in> rec_id ` set docs"
    by (metis imageI nth_mem)
  then show ?thesis
    by (simp add: store_put_def map_replace_distinct [OF assms])
qed

lemma updateStore_put_documents:
  "updateStore_put sch r rm = Inr rm' \<Longrightarrow> documents rm' = store_put r (documents rm)"
  by (auto simp: updateStore_put_def split: option.splits)

lemma updateStore_put_accepts:
  "sch r = None \<Longrightarrow> updateStore_put sch r rm = Inr (rm\<lparr>documents := store_put r (documents rm)\<rparr>)"
  by (simp add: updateStore_put_def)

text \<open>
  C3 (amended). \<open>edit_widget_html\<close> fails with \<open>Missing htmlContent\<close> when \<open>htmlContent\<close> is
  absent or empty; otherwise it fails with the accessor's message when the room accessor
  fails, and with \<open>Widget shape not found\<close> when the acquired room has no widget shape
  with the identifier. Otherwise it runs the substitution over the supplied text with
  the widget's current \<open>widgetId\<close> and storage and, the record store accepting the write,
  stores the substituted text as the widget's \<open>htmlContent\<close>, sets the storage to empty
  unless \<open>preserveStorage\<close> is true, and returns the substituted text.
\<close>

theorem handleEditWidgetHtml_outcomes:
  "(falsy (edit_htmlContent body) \<longrightarrow>
      handleEditWidgetHtml sch sid body acc = (Failure 400 ''Missing htmlContent'', acc))
   \<and> (edit_htmlContent body = Some html \<and> html \<noteq> [] \<longrightarrow>
        handleEditWidgetHtml sch sid body (Inl msg) = (Failure 500 msg, Inl msg))
   \<and> (edit_htmlContent body = Some html \<and> html \<noteq> []
        \<and> \<not> (\<exists>s. Shape s \<in> set (documents rm) \<and> shape_id s = sid
                  \<and> shape_type s = ''miyagi-widget'') \<longrightarrow>
        handleEditWidgetHtml sch sid body (Inr rm)
          = (Failure 404 (''Widget shape not found: '' @ sid), Inr rm))
   \<and> (edit_htmlContent body = Some html \<and> html \<noteq> []
        \<and> find_widget sid (documents rm) = Some (Shape sh)
        \<and> sch (Shape (edited_shape sh (substituted html sh) (edit_preserveStorage body))) = None
       \<longrightarrow>
        (\<exists>rm' sh'. handleEditWidgetHtml sch sid body (Inr rm)
                      = (Success (substituted html sh), Inr rm')
           \<and> lookup_record sid (Inr rm') = Some (Shape sh')
           \<and> htmlContent (props sh') = substituted html sh
           \<and> miyagiStorage (props sh')
               = (if edit_preserveStorage body = Some True then miyagiStorage (props sh)
                  else Some Map.empty)))"
proof (intro conjI impI)
  assume "falsy (edit_htmlContent body)"
  then show "handleEditWidgetHtml sch sid body acc = (Failure 400 ''Missing htmlContent'', acc)"
    by (rule handleEditWidgetHtml_missing)
next
  assume "edit_htmlContent body = Some html \<and> html \<noteq> []"
  then show "handleEditWidgetHtml sch sid body (Inl msg) = (Failure 500 msg, Inl msg)"
    by (simp add: handleEditWidgetHtml_no_room)
next
  assume a: "edit_htmlContent body = Some html \<and> html \<noteq> []
        \<and> \<not> (\<exists>s. Shape s \<in> set (documents rm) \<and> shape_id s = sid
                  \<and> shape_type s = ''miyagi-widget'')"
  then have "find_widget sid (documents rm) = None" by (simp add: find_widget_None)
  with a show "handleEditWidgetHtml sch sid body (Inr rm)
          = (Failure 404 (''Widget shape not found: '' @ sid), Inr rm)"
    by (simp add: handleEditWidgetHtml_not_found)
next
  let ?new = "edited_shape sh (substituted html sh) (edit_preserveStorage body)"
  let ?rm = "rm\<lparr>documents := store_put (Shape ?new) (documents rm)\<rparr>"
  assume a: "edit_htmlContent body = Some html \<and> html \<noteq> []
        \<and> find_widget sid (documents rm) = Some (Shape sh)
        \<and> sch (Shape ?new) = None"
  then have h: "edit_htmlContent body = Some html" "html \<noteq> []"
    and f: "find_widget sid (documents rm) = Some (Shape sh)"
    and v: "sch (Shape ?new) = None" by simp_all
  have put: "updateStore_put sch (Shape ?new) rm = Inr ?rm"
    using v by (rule updateStore_put_accepts)
  have run: "handleEditWidgetHtml sch sid body (Inr rm) = (Success (substituted html sh), Inr ?rm)"
    using handleEditWidgetHtml_found [OF h f, of sch] put by simp
  have "rec_id (Shape ?new) = sid"
    using find_widget_Some(2) [OF f] by (simp add: edited_shape_def)
  with lookup_after_put [OF put] have l: "lookup_record sid (Inr ?rm) = Some (Shape ?new)"
    by simp
  have c: "htmlContent (props ?new) = substituted html sh"
    "miyagiStorage (props ?new)
       = (if edit_preserveStorage body = Some True then miyagiStorage (props sh)
          else Some Map.empty)"
    by (cases "edit_preserveStorage body"; simp add: edited_shape_def)+
  from run l c show "\<exists>rm' sh'. handleEditWidgetHtml sch sid body (Inr rm)
                      = (Success (substituted html sh), Inr rm')
           \<and> lookup_record sid (Inr rm') = Some (Shape sh')
           \<and> htmlContent (props sh') = substituted html sh
           \<and> miyagiStorage (props sh')
               = (if edit_preserveStorage body = Some True then miyagiStorage (props sh)
                  else Some Map.empty)"
    by blast
qed

lemma substituted_greeting: "substituted ''Hi {{miyagi-storage:name}}!'' widget1 = ''Hi Ann!''"
  by (simp add: substituted_def processTemplate_def match_at_def opener_def widget1_def
        storage_or_empty_def read_property_def)

lemma find_widget1: "find_widget ''shape:w1'' (documents sample_room) = Some (Shape widget1)"
  by (simp add: find_widget_def sample_room_def page1_def widget1_def)

lemma sample_room_distinct: "distinct (map rec_id (documents sample_room))"
  by (simp add: sample_room_def page1_def widget1_def widget2_def geo1_def)

lemma put_greeted:
  "store_put (Shape (edited_shape widget1 ''Hi Ann!'' p)) (documents sample_room)
     = documents (greeted_room p)"
proof -
  have "documents sample_room ! 1 = Shape widget1" by (simp add: sample_room_def)
  then have "rec_id (documents sample_room ! 1)
      = rec_id (Shape (edited_shape widget1 ''Hi Ann!'' p))"
    by (simp add: edited_shape_def)
  from store_put_replaces [OF sample_room_distinct _ this]
  show ?thesis by (simp add: sample_room_def greeted_room_def)
qed

lemma edit_greeting:
  assumes "edit_htmlContent body = Some ''Hi {{miyagi-storage:name}}!''"
  shows "handleEditWidgetHtml accept_all ''shape:w1'' body (Inr sample_room)
     = (Success ''Hi Ann!'', Inr (greeted_room (edit_preserveStorage body)))"
proof -
  let ?p = "edit_preserveStorage body"
  have r: "sample_room\<lparr>documents := documents (greeted_room ?p)\<rparr> = greeted_room ?p"
    by (simp add: sample_room_def greeted_room_def)
  have "handleEditWidgetHtml accept_all ''shape:w1'' body (Inr sample_room)
      = (Success ''Hi Ann!'', Inr (sample_room\<lparr>documents := documents (greeted_room ?p)\<rparr>))"
    using handleEditWidgetHtml_found [OF assms _ find_widget1, of accept_all]
    by (simp add: substituted_greeting updateStore_put_def accept_all_def put_greeted)
  then show ?thesis by (simp only: r)
qed

theorem handleEditWidgetHtml_outcomes_witness:
  "handleEditWidgetHtml accept_all ''shape:w1'' greeting_body (Inr sample_room)
     = (Success ''Hi Ann!'', Inr (greeted_room None))
   \<and> substituted ''Hi {{miyagi-storage:name}}!'' widget1 = ''Hi Ann!''
   \<and> lookup_record ''shape:w1'' (Inr (greeted_room None))
       = Some (Shape (edited_shape widget1 ''Hi Ann!'' None))
   \<and> htmlContent (props (edited_shape widget1 ''Hi Ann!'' None)) = ''Hi Ann!''
   \<and> miyagiStorage (props (edited_shape widget1 ''Hi Ann!'' None)) = Some Map.empty
   \<and> handleEditWidgetHtml accept_all ''shape:w1''
        \<lparr>edit_htmlContent = None, edit_preserveStorage = None\<rparr> (Inr sample_room)
       = (Failure 400 ''Missing htmlContent'', Inr sample_room)
   \<and> handleEditWidgetHtml accept_all ''shape:w1'' greeting_body (Inl ''Missing roomId'')
       = (Failure 500 ''Missing roomId'', Inl ''Missing roomId'')
   \<and> handleEditWidgetHtml accept_all ''shape:w9'' greeting_body (Inr sample_room)
       = (Failure 404 ''Widget shape not found: shape:w9'', Inr sample_room)"
proof -
  have g: "edit_htmlContent greeting_body = Some ''Hi {{miyagi-storage:name}}!''"
    "edit_preserveStorage greeting_body = None"
    by (simp_all add: greeting_body_def)
  have a: "handleEditWidgetHtml accept_all ''shape:w1'' greeting_body (Inr sample_room)
     = (Success ''Hi Ann!'', Inr (greeted_room None))"
    using edit_greeting [OF g(1)] by (simp add: g(2))
  have l: "lookup_record ''shape:w1'' (Inr (greeted_room None))
       = Some (Shape (edited_shape widget1 ''Hi Ann!'' None))"
    by (simp add: lookup_record_def getCurrentSnapshot_def greeted_room_def page1_def
          edited_shape_def widget1_def)
  have n: "\<not> (\<exists>s. Shape s \<in> set (documents sample_room) \<and> shape_id s = ''shape:w9''
                  \<and> shape_type s = ''miyagi-widget'')"
    by (auto simp: sample_room_def widget1_def widget2_def geo1_def)
  note t1 = handleEditWidgetHtml_outcomes
      [of "\<lparr>edit_htmlContent = None, edit_preserveStorage = None\<rparr>" accept_all "''shape:w1''"
          "Inr sample_room" "''x''" "''y''" sample_room widget1]
  note t2 = handleEditWidgetHtml_outcomes
      [of greeting_body accept_all "''shape:w1''" "Inr sample_room"
          "''Hi {{miyagi-storage:name}}!''" "''Missing roomId''" sample_room widget1]
  note t3 = handleEditWidgetHtml_outcomes
      [of greeting_body accept_all "''shape:w9''" "Inr sample_room"
          "''Hi {{miyagi-storage:name}}!''" "''Missing roomId''" sample_room widget1]
  from t1 have b: "handleEditWidgetHtml accept_all ''shape:w1''
        \<lparr>edit_htmlContent = None, edit_preserveStorage = None\<rparr> (Inr sample_room)
       = (Failure 400 ''Missing htmlContent'', Inr sample_room)"
    by simp
  from t2 g have c: "handleEditWidgetHtml accept_all ''shape:w1'' greeting_body
        (Inl ''Missing roomId'') = (Failure 500 ''Missing roomId'', Inl ''Missing roomId'')"
    by simp
  from t3 g n have d: "handleEditWidgetHtml accept_all ''shape:w9'' greeting_body (Inr sample_room)
       = (Failure 404 ''Widget shape not found: shape:w9'', Inr sample_room)"
    by simp
  from t2 g find_widget1 a l
  have e: "htmlContent (props (edited_shape widget1 ''Hi Ann!'' None)) = ''Hi Ann!''
      \<and> miyagiStorage (props (edited_shape widget1 ''Hi Ann!'' None)) = Some Map.empty"
    by (simp add: substituted_greeting accept_all_def)
  from a substituted_greeting l e b c d show ?thesis by blast
qed

text \<open>
  C3 as stated fails: with \<open>htmlContent\<close> present but empty and the widget in the room,
  the edit fails with \<open>Missing htmlContent\<close> and writes nothing.
\<close>

theorem empty_htmlContent_counterexample:
  "handleEditWidgetHtml accept_all ''shape:w1''
     \<lparr>edit_htmlContent = Some [], edit_preserveStorage = None\<rparr> (Inr sample_room)
     = (Failure 400 ''Missing htmlContent'', Inr sample_room)
   \<and> find_widget ''shape:w1'' (documents sample_room) = Some (Shape widget1)"
  by (simp add: handleEditWidgetHtml_def find_widget1)

section \<open>What an edit leaves alone\<close>

text \<open>
  Identifiers stay distinct under every write, so a room that starts from a snapshot
  with distinct identifiers, or empty, has distinct identifiers ever after.
\<close>

lemma store_put_keeps_distinct:
  assumes "distinct (map rec_id docs)"
  shows "distinct (map rec_id (store_put r docs))"
proof (cases "rec_id r \<in> rec_id ` set docs")
  case True
  have "map rec_id (map (\<lambda>d. if rec_id d = rec_id r then r else d) docs) = map rec_id docs"
    by (induction docs) auto
  with assms True show ?thesis by (simp add: store_put_def del: map_map)
next
  case False
  with assms show ?thesis by (simp add: store_put_def)
qed

lemma store_put_known:
  "rec_id r \<in> rec_id ` set docs \<Longrightarrow>
     store_put r docs = map (\<lambda>d. if rec_id d = rec_id r then r else d) docs"
  by (simp add: store_put_def)

text \<open>
  C10. A successful \<open>edit_widget_html\<close> replaces the record stored under the target's
  identifier and leaves every record with another identifier as it is and where it is;
  in a room whose records have distinct identifiers (the record store is a mapping by
  identifier) the documents change at one position only, the target widget's. The record
  written keeps \<open>id\<close>, \<open>typeName\<close>, \<open>type\<close>, \<open>parentId\<close>, \<open>index\<close>, \<open>x\<close>, \<open>y\<close>, \<open>rotation\<close>,
  \<open>isLocked\<close>, \<open>opacity\<close>, \<open>meta\<close> and the props \<open>w\<close>, \<open>h\<close>, \<open>widgetId\<close>, \<open>templateId\<close> and
  \<open>color\<close> of the target.
\<close>

theorem handleEditWidgetHtml_frame:
  assumes "handleEditWidgetHtml sch sid body (Inr rm) = (Success out, acc')"
  shows "\<exists>sh sh' rm'.
           acc' = Inr rm' \<and> find_widget sid (documents rm) = Some (Shape sh)
           \<and> shape_id sh = sid \<and> shape_type sh = ''miyagi-widget''
           \<and> documents rm' = map (\<lambda>r. if rec_id r = sid then Shape sh' else r) (documents rm)
           \<and> (\<forall>i < length (documents rm).
                 distinct (map rec_id (documents rm)) \<and> documents rm ! i = Shape sh
                 \<longrightarrow> documents rm' = (documents rm)[i := Shape sh'])
           \<and> typeName (Shape sh') = typeName (Shape sh)
           \<and> shape_id sh' = shape_id sh \<and> shape_type sh' = shape_type sh
           \<and> parentId sh' = parentId sh \<and> shape_index sh' = shape_index sh
           \<and> shape_x sh' = shape_x sh \<and> shape_y sh' = shape_y sh
           \<and> rotation sh' = rotation sh \<and> isLocked sh' = isLocked sh
           \<and> opacity sh' = opacity sh \<and> meta sh' = meta sh
           \<and> prop_w (props sh') = prop_w (props sh) \<and> prop_h (props sh') = prop_h (props sh)
           \<and> widgetId (props sh') = widgetId (props sh)
           \<and> templateId (props sh') = templateId (props sh)
           \<and> color (props sh') = color (props sh)"
proof -
  from handleEditWidgetHtml_success [OF assms] obtain html sh rm' where
    f: "find_widget sid (documents rm) = Some (Shape sh)"
    and put: "updateStore_put sch
                (Shape (edited_shape sh (substituted html sh) (edit_preserveStorage body))) rm
               = Inr rm'"
    and a: "acc' = Inr rm'" by blast
  let ?new = "edited_shape sh (substituted html sh) (edit_preserveStorage body)"
  from find_widget_Some [OF f] have m: "Shape sh \<in> set (documents rm)"
    and s: "shape_id sh = sid" and t: "shape_type sh = ''miyagi-widget''" by simp_all
  have n: "rec_id (Shape ?new) = sid" using s by (simp add: edited_shape_def)
  from m s have "sid \<in> rec_id ` set (documents rm)" by force
  with n have "store_put (Shape ?new) (documents rm)
      = map (\<lambda>d. if rec_id d = sid then Shape ?new else d) (documents rm)"
    using store_put_known [of "Shape ?new" "documents rm"] by simp
  with updateStore_put_documents [OF put]
  have d: "documents rm'
      = map (\<lambda>r. if rec_id r = sid then Shape ?new else r) (documents rm)" by simp
  have u: "\<forall>i < length (documents rm).
             distinct (map rec_id (documents rm)) \<and> documents rm ! i = Shape sh
             \<longrightarrow> documents rm' = (documents rm)[i := Shape ?new]"
  proof (intro allI impI)
    fix i assume i: "i < length (documents rm)"
      and "distinct (map rec_id (documents rm)) \<and> documents rm ! i = Shape sh"
    then have "distinct (map rec_id (documents rm))" "rec_id (documents rm ! i) = sid"
      using s by simp_all
    from map_replace_distinct [OF this(1) i this(2)] d
    show "documents rm' = (documents rm)[i := Shape ?new]" by simp
  qed
  have e: "typeName (Shape ?new) = typeName (Shape sh)
           \<and> shape_id ?new = shape_id sh \<and> shape_type ?new = shape_type sh
           \<and> parentId ?new = parentId sh \<and> shape_index ?new = shape_index sh
           \<and> shape_x ?new = shape_x sh \<and> shape_y ?new = shape_y sh
           \<and> rotation ?new = rotation sh \<and> isLocked ?new = isLocked sh
           \<and> opacity ?new = opacity sh \<and> meta ?new = meta sh
           \<and> prop_w (props ?new) = prop_w (props sh) \<and> prop_h (props ?new) = prop_h (props sh)
           \<and> widgetId (props ?new) = widgetId (props sh)
           \<and> templateId (props ?new) = templateId (props sh)
           \<and> color (props ?new) = color (props sh)"
    by (simp add: edited_shape_def)
  from a f s t d u e show ?thesis by blast
qed

theorem handleEditWidgetHtml_frame_witness:
  "handleEditWidgetHtml accept_all ''shape:w1'' keeping_body (Inr sample_room)
     = (Success ''Hi Ann!'', Inr (greeted_room (Some True)))
   \<and> find_widget ''shape:w1'' (documents sample_room) = Some (Shape widget1)
   \<and> distinct (map rec_id (documents sample_room))
   \<and> documents sample_room ! 1 = Shape widget1
   \<and> documents (greeted_room (Some True))
       = (documents sample_room)[1 := Shape (edited_shape widget1 ''Hi Ann!'' (Some True))]
   \<and> edited_shape widget1 ''Hi Ann!'' (Some True)
       = widget1\<lparr>props := (props widget1)\<lparr>htmlContent := ''Hi Ann!''\<rparr>\<rparr>
   \<and> (\<exists>sh'. documents (greeted_room (Some True)) = (documents sample_room)[1 := Shape sh']
         \<and> parentId sh' = parentId widget1
         \<and> widgetId (props sh') = widgetId (props widget1))"
proof -
  have k: "edit_htmlContent keeping_body = Some ''Hi {{miyagi-storage:name}}!''"
    "edit_preserveStorage keeping_body = Some True"
    by (simp_all add: keeping_body_def)
  have a: "handleEditWidgetHtml accept_all ''shape:w1'' keeping_body (Inr sample_room)
     = (Success ''Hi Ann!'', Inr (greeted_room (Some True)))"
    using edit_greeting [OF k(1)] by (simp add: k(2))
  have p: "documents sample_room ! 1 = Shape widget1" "1 < length (documents sample_room)"
    by (simp_all add: sample_room_def)
  have d: "documents (greeted_room (Some True))
       = (documents sample_room)[1 := Shape (edited_shape widget1 ''Hi Ann!'' (Some True))]"
    by (simp add: greeted_room_def sample_room_def)
  have e: "edited_shape widget1 ''Hi Ann!'' (Some True)
       = widget1\<lparr>props := (props widget1)\<lparr>htmlContent := ''Hi Ann!''\<rparr>\<rparr>"
    by (simp add: edited_shape_def widget1_def)
  from handleEditWidgetHtml_frame [OF a] obtain sh sh' rm' where
    r: "Inr (greeted_room (Some True)) = Inr rm'"
    and f: "find_widget ''shape:w1'' (documents sample_room) = Some (Shape sh)"
    and u: "\<forall>i < length (documents sample_room).
                 distinct (map rec_id (documents sample_room))
                 \<and> documents sample_room ! i = Shape sh
                 \<longrightarrow> documents rm' = (documents sample_room)[i := Shape sh']"
    and q: "parentId sh' = parentId sh" "widgetId (props sh') = widgetId (props sh)"
    by blast
  from f find_widget1 have sh: "sh = widget1" by simp
  from r have rm: "rm' = greeted_room (Some True)" by simp
  from u p sample_room_distinct sh rm
  have "documents (greeted_room (Some True)) = (documents sample_room)[1 := Shape sh']"
    by blast
  with q sh have w: "\<exists>sh'. documents (greeted_room (Some True))
          = (documents sample_room)[1 := Shape sh']
         \<and> parentId sh' = parentId widget1
         \<and> widgetId (props sh') = widgetId (props widget1)"
    by blast
  from a find_widget1 sample_room_distinct p(1) d e w show ?thesis by blast
qed

section \<open>Updating the storage of a widget\<close>

lemma update_widget_storage_not_found:
  "find_widget sid (documents rm) = None \<Longrightarrow>
     update_widget_storage sch sid storageData merge (Inr rm)
       = (Failure 404 (''Widget shape not found: '' @ sid), Inr rm)"
  by (simp add: update_widget_storage_def getCurrentSnapshot_def)

lemma update_widget_storage_found:
  assumes "find_widget sid (documents rm) = Some (Shape sh)"
    and "sch (Shape (with_storage sh
            (if merge then storage_or_empty (miyagiStorage (props sh)) ++ storageData
             else storageData))) = None"
  shows "update_widget_storage sch sid storageData merge (Inr rm)
       = (Success (dom storageData),
          Inr (rm\<lparr>documents :=
                 store_put (Shape (with_storage sh
                    (if merge then storage_or_empty (miyagiStorage (props sh)) ++ storageData
                     else storageData))) (documents rm)\<rparr>))"
proof -
  let ?st = "if merge then storage_or_empty (miyagiStorage (props sh)) ++ storageData
             else storageData"
  have "updateStore_put sch (Shape (with_storage sh ?st)) rm
      = Inr (rm\<lparr>documents := store_put (Shape (with_storage sh ?st)) (documents rm)\<rparr>)"
    using assms(2) by (rule updateStore_put_accepts)
  with assms(1) show ?thesis
    by (simp add: update_widget_storage_def getCurrentSnapshot_def Let_def with_storage_def)
qed

text \<open>
  C5. \<open>update_widget_storage\<close> fails when no widget shape has the identifier. Otherwise,
  the record store accepting the write, it returns the keys of \<open>storageData\<close>, and the
  widget's storage afterwards is, with \<open>merge\<close> true, the key-wise union in which a key
  of \<open>storageData\<close> takes its value from \<open>storageData\<close> and any other key keeps its old
  value, and with \<open>merge\<close> false \<open>storageData\<close> itself. The handler is not in the sources;
  the statement is about its model from the spec.
\<close>

theorem update_widget_storage_merges:
  "(\<not> (\<exists>s. Shape s \<in> set (documents rm) \<and> shape_id s = sid
            \<and> shape_type s = ''miyagi-widget'') \<longrightarrow>
      update_widget_storage sch sid storageData merge (Inr rm)
        = (Failure 404 (''Widget shape not found: '' @ sid), Inr rm))
   \<and> (find_widget sid (documents rm) = Some (Shape sh)
       \<and> sch (Shape (with_storage sh
            (if merge then storage_or_empty (miyagiStorage (props sh)) ++ storageData
             else storageData))) = None \<longrightarrow>
      (\<exists>rm' st'. update_widget_storage sch sid storageData merge (Inr rm)
                    = (Success (dom storageData), Inr rm')
         \<and> storage_of sid (Inr rm') = Some st'
         \<and> (merge \<longrightarrow> (\<forall>k. st' k = (case storageData k of
                                        Some v \<Rightarrow> Some v
                                      | None \<Rightarrow> storage_or_empty (miyagiStorage (props sh)) k)))
         \<and> (\<not> merge \<longrightarrow> st' = storageData)))"
proof (intro conjI impI)
  assume "\<not> (\<exists>s. Shape s \<in> set (documents rm) \<and> shape_id s = sid
            \<and> shape_type s = ''miyagi-widget'')"
  then have "find_widget sid (documents rm) = None" by (simp add: find_widget_None)
  then show "update_widget_storage sch sid storageData merge (Inr rm)
        = (Failure 404 (''Widget shape not found: '' @ sid), Inr rm)"
    by (rule update_widget_storage_not_found)
next
  let ?st = "if merge then storage_or_empty (miyagiStorage (props sh)) ++ storageData
             else storageData"
  let ?rm = "rm\<lparr>documents := store_put (Shape (with_storage sh ?st)) (documents rm)\<rparr>"
  assume a: "find_widget sid (documents rm) = Some (Shape sh)
       \<and> sch (Shape (with_storage sh ?st)) = None"
  then have f: "find_widget sid (documents rm) = Some (Shape sh)"
    and v: "sch (Shape (with_storage sh ?st)) = None" by simp_all
  have run: "update_widget_storage sch sid storageData merge (Inr rm)
      = (Success (dom storageData), Inr ?rm)"
    using f v by (rule update_widget_storage_found)
  have put: "updateStore_put sch (Shape (with_storage sh ?st)) rm = Inr ?rm"
    using v by (rule updateStore_put_accepts)
  have "rec_id (Shape (with_storage sh ?st)) = sid"
    using find_widget_Some(2) [OF f] by (simp add: with_storage_def)
  with lookup_after_put [OF put]
  have "lookup_record sid (Inr ?rm) = Some (Shape (with_storage sh ?st))" by simp
  then have l: "storage_of sid (Inr ?rm) = Some ?st"
    by (simp add: storage_of_def with_storage_def storage_or_empty_def)
  have m: "merge \<longrightarrow> (\<forall>k. ?st k = (case storageData k of
                                        Some v \<Rightarrow> Some v
                                      | None \<Rightarrow> storage_or_empty (miyagiStorage (props sh)) k))"
    by (simp add: map_add_def)
  have n: "\<not> merge \<longrightarrow> ?st = storageData" by simp
  from run l m n show "\<exists>rm' st'. update_widget_storage sch sid storageData merge (Inr rm)
                    = (Success (dom storageData), Inr rm')
         \<and> storage_of sid (Inr rm') = Some st'
         \<and> (merge \<longrightarrow> (\<forall>k. st' k = (case storageData k of
                                        Some v \<Rightarrow> Some v
                                      | None \<Rightarrow> storage_or_empty (miyagiStorage (props sh)) k)))
         \<and> (\<not> merge \<longrightarrow> st' = storageData)"
    by blast
qed


lemma sample_room_stored: "sample_room = stored_room None"
  by (simp add: sample_room_def stored_room_def widget2_def)

lemma find_widget2:
  "find_widget ''shape:w2'' (documents (stored_room st))
     = Some (Shape (widget2\<lparr>props := (props widget2)\<lparr>miyagiStorage := st\<rparr>\<rparr>))"
  by (simp add: find_widget_def stored_room_def page1_def widget1_def widget2_def geo1_def)

lemma update_stored_room:
  "update_widget_storage accept_all ''shape:w2'' storageData merge (Inr (stored_room st))
     = (Success (dom storageData),
        Inr (stored_room (Some (if merge then storage_or_empty st ++ storageData
                                else storageData))))"
proof -
  let ?sh = "widget2\<lparr>props := (props widget2)\<lparr>miyagiStorage := st\<rparr>\<rparr>"
  let ?st = "if merge then storage_or_empty (miyagiStorage (props ?sh)) ++ storageData
             else storageData"
  have v: "accept_all (Shape (with_storage ?sh ?st)) = None" by (simp add: accept_all_def)
  have p: "store_put (Shape (with_storage ?sh ?st)) (documents (stored_room st))
      = documents (stored_room (Some ?st))"
    by (simp add: store_put_def stored_room_def with_storage_def page1_def widget1_def
          widget2_def geo1_def)
  have r: "stored_room st\<lparr>documents := documents (stored_room (Some ?st))\<rparr>
      = stored_room (Some ?st)"
    by (simp add: stored_room_def)
  have "update_widget_storage accept_all ''shape:w2'' storageData merge (Inr (stored_room st))
      = (Success (dom storageData),
         Inr (stored_room st\<lparr>documents :=
                store_put (Shape (with_storage ?sh ?st)) (documents (stored_room st))\<rparr>))"
    using find_widget2 v by (rule update_widget_storage_found)
  then have "update_widget_storage accept_all ''shape:w2'' storageData merge
        (Inr (stored_room st))
      = (Success (dom storageData), Inr (stored_room (Some ?st)))"
    by (simp only: p r)
  then show ?thesis by simp
qed

lemma storage_of_stored_room: "storage_of ''shape:w2'' (Inr (stored_room (Some st))) = Some st"
  by (simp add: storage_of_def lookup_record_def getCurrentSnapshot_def stored_room_def
        page1_def widget1_def widget2_def geo1_def storage_or_empty_def)

theorem update_widget_storage_merges_witness:
  "update_widget_storage accept_all ''shape:w2'' [''a'' \<mapsto> ''1''] True (Inr sample_room)
     = (Success {''a''}, Inr (stored_room (Some [''a'' \<mapsto> ''1''])))
   \<and> update_widget_storage accept_all ''shape:w2'' [''b'' \<mapsto> ''2''] True
        (Inr (stored_room (Some [''a'' \<mapsto> ''1''])))
     = (Success {''b''}, Inr (stored_room (Some [''a'' \<mapsto> ''1'', ''b'' \<mapsto> ''2''])))
   \<and> storage_of ''shape:w2'' (Inr (stored_room (Some [''a'' \<mapsto> ''1'', ''b'' \<mapsto> ''2''])))
     = Some [''a'' \<mapsto> ''1'', ''b'' \<mapsto> ''2'']
   \<and> update_widget_storage accept_all ''shape:w2'' [''b'' \<mapsto> ''2''] False
        (Inr (stored_room (Some [''a'' \<mapsto> ''1''])))
     = (Success {''b''}, Inr (stored_room (Some [''b'' \<mapsto> ''2''])))
   \<and> storage_of ''shape:w2'' (Inr (stored_room (Some [''b'' \<mapsto> ''2'']))) = Some [''b'' \<mapsto> ''2'']
   \<and> update_widget_storage accept_all ''shape:w9'' [''a'' \<mapsto> ''1''] True (Inr sample_room)
     = (Failure 404 ''Widget shape not found: shape:w9'', Inr sample_room)"
proof -
  have a: "update_widget_storage accept_all ''shape:w2'' [''a'' \<mapsto> ''1''] True (Inr sample_room)
     = (Success {''a''}, Inr (stored_room (Some [''a'' \<mapsto> ''1''])))"
    using update_stored_room [of "[''a'' \<mapsto> ''1'']" True None]
    by (simp add: sample_room_stored storage_or_empty_def)
  have b: "update_widget_storage accept_all ''shape:w2'' [''b'' \<mapsto> ''2''] True
        (Inr (stored_room (Some [''a'' \<mapsto> ''1''])))
     = (Success {''b''}, Inr (stored_room (Some [''a'' \<mapsto> ''1'', ''b'' \<mapsto> ''2''])))"
    using update_stored_room [of "[''b'' \<mapsto> ''2'']" True "Some [''a'' \<mapsto> ''1'']"]
    by (simp add: storage_or_empty_def)
  have c: "update_widget_storage accept_all ''shape:w2'' [''b'' \<mapsto> ''2''] False
        (Inr (stored_room (Some [''a'' \<mapsto> ''1''])))
     = (Success {''b''}, Inr (stored_room (Some [''b'' \<mapsto> ''2''])))"
    using update_stored_room [of "[''b'' \<mapsto> ''2'']" False "Some [''a'' \<mapsto> ''1'']"]
    by simp
  have n: "\<not> (\<exists>s. Shape s \<in> set (documents sample_room) \<and> shape_id s = ''shape:w9''
                  \<and> shape_type s = ''miyagi-widget'')"
    by (auto simp: sample_room_def widget1_def widget2_def geo1_def)
  from update_widget_storage_merges
     [of sample_room "''shape:w9''" accept_all "[''a'' \<mapsto> ''1'']" True widget2] n
  have d: "update_widget_storage accept_all ''shape:w9'' [''a'' \<mapsto> ''1''] True (Inr sample_room)
     = (Failure 404 ''Widget shape not found: shape:w9'', Inr sample_room)"
    by simp
  from a b c d storage_of_stored_room show ?thesis by simp
qed

end
